theory Spec2Isabelle
  imports Complex_Main "HOL-Library.Sublist"
begin

section \<open>JavaScript values used by the watcher\<close>

text \<open>
  A JavaScript number is NaN, an infinity or a finite binary64 value. Every finite binary64
  value is a rational and \<open><\<close> on finite values is the order of the rationals, so a finite
  number is represented by the rational it denotes.
\<close>

datatype jsnum = NaN | NegInf | Num rat | PosInf

text \<open>A property that may be absent (\<open>undefined\<close>), \<open>null\<close> or hold a value.\<close>

datatype 'a field = Undefined | Null | Val 'a

text \<open>\<open>ToNumber\<close> as applied by a relational operator: \<open>undefined\<close> is NaN, \<open>null\<close> is +0.\<close>

fun ToNumber :: "jsnum field \<Rightarrow> jsnum" where
  "ToNumber Undefined = NaN"
| "ToNumber Null = Num 0"
| "ToNumber (Val n) = n"

text \<open>\<open>x < y\<close> on numbers: false as soon as one side is NaN.\<close>

fun js_lt :: "jsnum \<Rightarrow> jsnum \<Rightarrow> bool" where
  "js_lt NaN y = False"
| "js_lt x NaN = False"
| "js_lt (Num a) (Num b) = (a < b)"
| "js_lt (Num a) PosInf = True"
| "js_lt (Num a) NegInf = False"
| "js_lt NegInf NegInf = False"
| "js_lt NegInf y = True"
| "js_lt PosInf y = False"

text \<open>Truthiness of the values the code tests with \<open>!\<close> and \<open>? :\<close>.\<close>

fun truthy_bool :: "bool field \<Rightarrow> bool" where
  "truthy_bool (Val b) = b"
| "truthy_bool f = False"

fun truthy_num :: "rat option \<Rightarrow> bool" where
  "truthy_num (Some n) = (n \<noteq> 0)"
| "truthy_num None = False"

fun truthy_str :: "string option \<Rightarrow> bool" where
  "truthy_str (Some s) = (s \<noteq> [])"
| "truthy_str None = False"

section \<open>Configuration\<close>

text \<open>
  \<open>interface WatchConfig\<close>. An optional property is an \<open>option\<close>; the numbers come
  from a JSON file, so they are finite.
\<close>

record Selectors =
  sel_product :: string
  sel_productAttribute :: "string option"
  sel_productURL :: "string option"
  sel_productName :: string
  sel_outOfStockSelector :: string
  sel_price :: string

record WatchConfig =
  store :: string
  url :: string
  refreshSeconds :: "rat option"
  maxPrice :: "rat option"
  expectedProductCount :: int
  outOfStockText :: "string option"
  maxTabs :: "rat option"
  selectors :: Selectors

text \<open>
  The properties of \<open>MasterConfig\<close> (\<open>watch-config.json\<close>) that the code reads. The file is
  not part of the sources, so the configuration is a parameter of every function that reads it.
\<close>

record MasterConfig =
  defaultRefreshSeconds :: rat
  defaultMaxPrice :: rat
  errorTimeSeconds :: rat
  successTimeSeconds :: rat
  globalMaxTabs :: "rat option"

section \<open>Products and the two selections\<close>

text \<open>
  \<open>interface Product\<close>. The property \<open>errors\<close> is absent, an array of tags, or (in the
  record that \<open>getProducts\<close> makes up for an empty page) a plain string.
\<close>

datatype errs = NoErrs | ErrText string | ErrList "string list"

record Product =
  productName :: "string field"
  productURL :: "string field"
  outOfStock :: "bool field"
  price :: "jsnum field"
  errs :: errs

text \<open>\<open>product.errors?.length > 0\<close>: an absent property gives \<open>undefined > 0\<close>, which is false.\<close>

definition has_errors :: "Product \<Rightarrow> bool" where
  "has_errors p = (case errs p of NoErrs \<Rightarrow> False | ErrText s \<Rightarrow> 0 < length s | ErrList l \<Rightarrow> 0 < length l)"

definition errors :: "Product list \<Rightarrow> Product list" where
  "errors products = filter has_errors products"

text \<open>\<open>this.watchConfig.maxPrice ? this.watchConfig.maxPrice : MasterConfig.defaultMaxPrice\<close>\<close>

definition effectiveMaxPrice :: "WatchConfig \<Rightarrow> MasterConfig \<Rightarrow> rat" where
  "effectiveMaxPrice cfg mc =
     (case maxPrice cfg of
        Some m \<Rightarrow> if truthy_num (Some m) then m else defaultMaxPrice mc
      | None \<Rightarrow> defaultMaxPrice mc)"

definition inStock :: "WatchConfig \<Rightarrow> MasterConfig \<Rightarrow> Product list \<Rightarrow> Product list" where
  "inStock cfg mc products =
     filter (\<lambda>product. \<not> truthy_bool (outOfStock product)
                \<and> js_lt (ToNumber (price product)) (Num (effectiveMaxPrice cfg mc))) products"

section \<open>The page as \<open>getProducts\<close> sees it\<close>

text \<open>
  The function that \<open>getProducts\<close> hands to \<open>page.evaluate\<close> runs inside the page and
  reads it only through \<open>querySelector\<close> on each product node. A lookup throws (a selector that is not valid CSS), finds nothing
  (\<open>null\<close>) or returns an element.
\<close>

datatype 'a query = Throws | NoMatch | Match 'a

text \<open>
  An element: its \<open>textContent\<close> and its other string-valued properties (\<open>href\<close> among
  them). A property that is missing, or whose value has no \<open>trim\<close>, is not listed.
\<close>

record Elem =
  textContent :: string
  props :: "(string \<times> string) list"

definition elemProp :: "Elem \<Rightarrow> string \<Rightarrow> string option" where
  "elemProp e a = (if a = ''textContent'' then Some (textContent e) else map_of (props e) a)"

text \<open>A product node, as the results of the four lookups made on it.\<close>

record ProductNode =
  q_productName :: "Elem query"
  q_productURL :: "Elem query"
  q_outOfStock :: "Elem query"
  q_price :: "Elem query"

text \<open>
  \<open>String.prototype.trim\<close>. A string is the list of its UTF-8 bytes. The white space and
  line terminators of the language are the code points 9 to D, 20, A0, 1680, 2000 to 200A,
  2028, 2029, 202F, 205F, 3000 and FEFF, which take one, two or three bytes.
\<close>

definition ws1 :: "char \<Rightarrow> bool" where
  "ws1 a = (a \<in> set [CHR 0x09, CHR 0x0A, CHR 0x0B, CHR 0x0C, CHR 0x0D, CHR 0x20])"

definition ws2 :: "char \<Rightarrow> char \<Rightarrow> bool" where
  "ws2 a b = (a = CHR 0xC2 \<and> b = CHR 0xA0)"

definition ws3 :: "char \<Rightarrow> char \<Rightarrow> char \<Rightarrow> bool" where
  "ws3 a b c =
     ((a = CHR 0xE2 \<and> b = CHR 0x80 \<and> (128::nat) \<le> of_char c \<and> (of_char c :: nat) \<le> 138)
      \<or> (a, b, c) \<in> set [(CHR 0xE1, CHR 0x9A, CHR 0x80), (CHR 0xE2, CHR 0x80, CHR 0xA8),
                          (CHR 0xE2, CHR 0x80, CHR 0xA9), (CHR 0xE2, CHR 0x80, CHR 0xAF),
                          (CHR 0xE2, CHR 0x81, CHR 0x9F), (CHR 0xE3, CHR 0x80, CHR 0x80),
                          (CHR 0xEF, CHR 0xBB, CHR 0xBF)])"

fun trimStart :: "string \<Rightarrow> string" where
  "trimStart (a # b # c # s) =
     (if ws1 a then trimStart (b # c # s)
      else if ws2 a b then trimStart (c # s)
      else if ws3 a b c then trimStart s
      else a # b # c # s)"
| "trimStart [a, b] = (if ws1 a then trimStart [b] else if ws2 a b then [] else [a, b])"
| "trimStart [a] = (if ws1 a then [] else [a])"
| "trimStart [] = []"

text \<open>The same from the end, on the reversed string: the bytes of a code point come last first.\<close>

fun trimEndRev :: "string \<Rightarrow> string" where
  "trimEndRev (c # b # a # s) =
     (if ws1 c then trimEndRev (b # a # s)
      else if ws2 b c then trimEndRev (a # s)
      else if ws3 a b c then trimEndRev s
      else c # b # a # s)"
| "trimEndRev [c, b] = (if ws1 c then trimEndRev [b] else if ws2 b c then [] else [c, b])"
| "trimEndRev [c] = (if ws1 c then [] else [c])"
| "trimEndRev [] = []"

declare trimStart.simps [simp del]

declare trimEndRev.simps [simp del]

definition trim :: "string \<Rightarrow> string" where
  "trim s = rev (trimEndRev (rev (trimStart s)))"

subsection \<open>\<open>Number(text.replace(/[^\d\.]/g, ''))\<close>\<close>

definition is_digit :: "char \<Rightarrow> bool" where
  "is_digit c = (c \<in> set ''0123456789'')"

definition strip_price :: "string \<Rightarrow> string" where
  "strip_price s = filter (\<lambda>c. is_digit c \<or> c = CHR ''.'') s"

definition digit_val :: "char \<Rightarrow> nat" where
  "digit_val c = of_char c - 48"

definition digits_val :: "string \<Rightarrow> nat" where
  "digits_val ds = foldl (\<lambda>a c. 10 * a + digit_val c) 0 ds"

text \<open>
  \<open>Number\<close> on a string of digits and dots, which is all that the replacement leaves:
  the empty string is +0; \<open>digits\<close>, \<open>digits.\<close>, \<open>digits.digits\<close> and \<open>.digits\<close> are
  decimal literals; anything else (a lone dot, two dots) is NaN. The value of a literal is
  rounded to binary64 by the host; the rounding is the parameter \<open>rnd\<close>, given the exact
  value of the literal.
\<close>

definition Number_js :: "(rat \<Rightarrow> jsnum) \<Rightarrow> string \<Rightarrow> jsnum" where
  "Number_js rnd s =
     (let ip = takeWhile is_digit s; rest = dropWhile is_digit s in
      if s = [] then Num 0
      else case rest of
        [] \<Rightarrow> rnd (of_nat (digits_val ip))
      | c # fp \<Rightarrow>
          if c = CHR ''.'' \<and> list_all is_digit fp \<and> \<not> (ip = [] \<and> fp = [])
          then rnd (of_nat (digits_val ip) + of_nat (digits_val fp) / 10 ^ length fp)
          else NaN)"

subsection \<open>The four fields of one product\<close>

text \<open>
  Each field is read inside its own \<open>try\<close>; \<open>None\<close> stands for the exception that the
  \<open>catch\<close> turns into an error tag, leaving the field \<open>null\<close>.
\<close>

definition getName :: "WatchConfig \<Rightarrow> ProductNode \<Rightarrow> string option" where
  "getName cfg node =
     (case q_productName node of
        Match e \<Rightarrow>
          (if \<not> truthy_str (sel_productAttribute (selectors cfg))
           then Some (trim (textContent e))
           else map_option trim (elemProp e (the (sel_productAttribute (selectors cfg)))))
      | _ \<Rightarrow> None)"

definition getURL :: "WatchConfig \<Rightarrow> ProductNode \<Rightarrow> string field option" where
  "getURL cfg node =
     (if truthy_str (sel_productURL (selectors cfg))
      then (case q_productURL node of
              Match e \<Rightarrow> Some (case elemProp e ''href'' of None \<Rightarrow> Undefined | Some h \<Rightarrow> Val h)
            | _ \<Rightarrow> None)
      else Some (Val (url cfg)))"

text \<open>
  \<open>rx pattern text\<close> is \<open>text.match(RegExp(pattern, 'gi'))\<close>: \<open>None\<close> when the pattern is
  not a regular expression (the constructor throws), otherwise whether there is a match.
  With \<open>?.\<close> a missing element ends the chain before the pattern is compiled.
\<close>

definition getOutOfStock ::
  "(string \<Rightarrow> string \<Rightarrow> bool option) \<Rightarrow> WatchConfig \<Rightarrow> ProductNode \<Rightarrow> bool option" where
  "getOutOfStock rx cfg node =
     (if truthy_str (outOfStockText cfg)
      then (case q_outOfStock node of
              Throws \<Rightarrow> None
            | NoMatch \<Rightarrow> Some False
            | Match e \<Rightarrow> rx (the (outOfStockText cfg)) (textContent e))
      else (case q_outOfStock node of
              Throws \<Rightarrow> None
            | NoMatch \<Rightarrow> Some False
            | Match e \<Rightarrow> Some True))"

definition getPrice :: "(rat \<Rightarrow> jsnum) \<Rightarrow> ProductNode \<Rightarrow> jsnum option" where
  "getPrice rnd node =
     (case q_price node of
        Match e \<Rightarrow> Some (Number_js rnd (strip_price (textContent e)))
      | _ \<Rightarrow> None)"

definition tag :: "'a option \<Rightarrow> string \<Rightarrow> string list" where
  "tag r t = (case r of None \<Rightarrow> [t] | Some v \<Rightarrow> [])"

definition orNull :: "'a option \<Rightarrow> 'a field" where
  "orNull r = (case r of None \<Rightarrow> Null | Some v \<Rightarrow> Val v)"

text \<open>The body of \<open>products.forEach\<close>: one record per node, the tags in the order of the four \<open>try\<close> blocks.\<close>

definition extractProduct ::
  "(rat \<Rightarrow> jsnum) \<Rightarrow> (string \<Rightarrow> string \<Rightarrow> bool option) \<Rightarrow> WatchConfig \<Rightarrow> ProductNode \<Rightarrow> Product" where
  "extractProduct rnd rx cfg node =
     (let nm = getName cfg node; ur = getURL cfg node;
          oos = getOutOfStock rx cfg node; pr = getPrice rnd node;
          es = tag nm ''Product name'' @ tag ur ''Product URL''
                 @ tag oos ''Out of stock'' @ tag pr ''Price''
      in \<lparr> productName = orNull nm,
           productURL = (case ur of None \<Rightarrow> Null | Some f \<Rightarrow> f),
           outOfStock = orNull oos,
           price = orNull pr,
           errs = (if length es = 0 then NoErrs else ErrList es) \<rparr>)"

subsection \<open>The count check\<close>

text \<open>
  A template literal prints an integer below \<open>10^21\<close> in magnitude in decimal. The number of
  matches is always that small; \<open>expectedProductCount\<close> is taken to be such an integer.
\<close>

fun showNat :: "nat \<Rightarrow> string" where
  "showNat n = (if n < 10 then [''0123456789'' ! n] else showNat (n div 10) @ [''0123456789'' ! (n mod 10)])"

declare showNat.simps [simp del]

definition showInt :: "int \<Rightarrow> string" where
  "showInt i = (if i < 0 then CHR ''-'' # showNat (nat (- i)) else showNat (nat i))"

definition loadErrorText :: "WatchConfig \<Rightarrow> string" where
  "loadErrorText cfg = ''Error loading page for '' @ store cfg @ ''.''"

definition countErrorText :: "WatchConfig \<Rightarrow> nat \<Rightarrow> string" where
  "countErrorText cfg found =
     ''Did not find the expected number of results for '' @ store cfg
       @ ''.  Expected '' @ showInt (expectedProductCount cfg)
       @ '', found '' @ showNat found @ ''.''"

text \<open>\<open>{ errors: `Error loading page for ...` }\<close>: no other property, and \<open>errors\<close> is a string.\<close>

definition syntheticRecord :: "WatchConfig \<Rightarrow> Product" where
  "syntheticRecord cfg =
     \<lparr> productName = Undefined, productURL = Undefined, outOfStock = Undefined,
       price = Undefined, errs = ErrText (loadErrorText cfg) \<rparr>"

text \<open>
  \<open>m.errors = m.errors ? m.errors : []; m.errors.push(text)\<close>. The records built by the loop
  have no \<open>errors\<close> or an array; a string has no \<open>push\<close>, and that case is never reached.
\<close>

definition pushError :: "string \<Rightarrow> Product \<Rightarrow> Product" where
  "pushError t m =
     (case errs m of
        NoErrs \<Rightarrow> m\<lparr>errs := ErrList [t]\<rparr>
      | ErrList l \<Rightarrow> m\<lparr>errs := ErrList (l @ [t])\<rparr>
      | ErrText s \<Rightarrow> m)"

text \<open>
  The function that \<open>getProducts\<close> hands to \<open>page.evaluate\<close>, run inside the page: the loop
  over the product nodes and the count check.
\<close>

definition pageFunction ::
  "(rat \<Rightarrow> jsnum) \<Rightarrow> (string \<Rightarrow> string \<Rightarrow> bool option) \<Rightarrow> WatchConfig \<Rightarrow> ProductNode list \<Rightarrow> Product list" where
  "pageFunction rnd rx cfg nodes =
     (let matches = map (extractProduct rnd rx cfg) nodes in
      if int (length matches) \<noteq> expectedProductCount cfg
      then (if length matches = 0
            then [syntheticRecord cfg]
            else matches[length matches - 1 :=
                   pushError (countErrorText cfg (length matches)) (matches ! (length matches - 1))])
      else matches)"

text \<open>
  \<open>page.evaluate\<close> returns the array by value, as JSON: a property that is \<open>undefined\<close> is
  left out (and reads as \<open>undefined\<close> again), strings, booleans, \<open>null\<close> and finite numbers
  arrive as they are, and NaN and the infinities, which JSON cannot write, arrive as \<open>null\<close>.
\<close>

fun finiteOrNull :: "jsnum field \<Rightarrow> jsnum field" where
  "finiteOrNull (Val (Num q)) = Val (Num q)"
| "finiteOrNull (Val n) = Null"
| "finiteOrNull f = f"

definition byValue :: "Product \<Rightarrow> Product" where
  "byValue p = p\<lparr>price := finiteOrNull (price p)\<rparr>"

text \<open>\<open>Watcher.getProducts\<close>: what \<open>page.evaluate\<close> returns to the watcher.\<close>

definition getProducts ::
  "(rat \<Rightarrow> jsnum) \<Rightarrow> (string \<Rightarrow> string \<Rightarrow> bool option) \<Rightarrow> WatchConfig \<Rightarrow> ProductNode list \<Rightarrow> Product list" where
  "getProducts rnd rx cfg nodes = map byValue (pageFunction rnd rx cfg nodes)"

text \<open>Whether a record carries a given tag, and the tags it carries.\<close>

definition hasTag :: "string \<Rightarrow> Product \<Rightarrow> bool" where
  "hasTag t p = (case errs p of ErrList l \<Rightarrow> t \<in> set l | _ \<Rightarrow> False)"

definition tagsOf :: "Product \<Rightarrow> string list" where
  "tagsOf p = (case errs p of ErrList l \<Rightarrow> l | _ \<Rightarrow> [])"

section \<open>One check of a watcher\<close>

text \<open>
  What the browser answers during one run of \<open>checkPage\<close>: for each awaited call whether
  it resolves, and for \<open>page.evaluate\<close> the product nodes found (\<open>None\<close> when it rejects).
  A rejected \<open>page.goto\<close> is caught inside \<open>loadPage\<close> and only logged.
\<close>

record Responses =
  r_wait :: bool
  r_newPage :: bool
  r_goto :: bool
  r_waitForSelector :: bool
  r_evaluate :: "ProductNode list option"
  r_screenshot :: bool

text \<open>What a check does to the outside, in order.\<close>

datatype effect = Screenshot string | Notify "Product list" | SetTimeout rat | PageClose

record CheckResult =
  effects :: "effect list"
  fulfilled :: bool
  pageAfter :: bool

text \<open>
  \<open>loadPage\<close>: the admission gate, a new page (assigned to \<open>this.page\<close>), navigation, the
  wait for the selectors. The state of the watcher is whether \<open>this.page\<close> has been assigned.
  The result is whether the promise resolves, and the state afterwards.
\<close>

definition loadPage :: "bool \<Rightarrow> Responses \<Rightarrow> bool \<times> bool" where
  "loadPage hasPage r =
     (if \<not> r_wait r then (False, hasPage)
      else if \<not> r_newPage r then (False, hasPage)
      else (r_waitForSelector r, True))"

text \<open>\<open>this.page.screenshot(...)\<close>: a TypeError while \<open>this.page\<close> is still unassigned.\<close>

definition screenshot :: "bool \<Rightarrow> Responses \<Rightarrow> bool" where
  "screenshot hasPage r = (hasPage \<and> r_screenshot r)"

text \<open>\<open>refreshSeconds ? refreshSeconds*1000 : MasterConfig.defaultRefreshSeconds*1000\<close>\<close>

definition refreshDelay :: "WatchConfig \<Rightarrow> MasterConfig \<Rightarrow> rat" where
  "refreshDelay cfg mc =
     (case refreshSeconds cfg of
        Some s \<Rightarrow> if truthy_num (Some s) then s * 1000 else defaultRefreshSeconds mc * 1000
      | None \<Rightarrow> defaultRefreshSeconds mc * 1000)"

text \<open>
  \<open>checkPage\<close>. An exception that leaves the method (a rejected screenshot, a rejected
  \<open>evaluate\<close>) ends it at that point: the effects so far stand and the promise is rejected.
\<close>

definition checkPage ::
  "(rat \<Rightarrow> jsnum) \<Rightarrow> (string \<Rightarrow> string \<Rightarrow> bool option) \<Rightarrow> WatchConfig \<Rightarrow> MasterConfig
     \<Rightarrow> bool \<Rightarrow> Responses \<Rightarrow> CheckResult" where
  "checkPage rnd rx cfg mc hasPage r =
     (case loadPage hasPage r of
        (False, hp) \<Rightarrow>
          if screenshot hp r
          then \<lparr> effects = [Screenshot ''error'', SetTimeout (errorTimeSeconds mc * 1000), PageClose],
                 fulfilled = True, pageAfter = hp \<rparr>
          else \<lparr> effects = [], fulfilled = False, pageAfter = hp \<rparr>
      | (True, hp) \<Rightarrow>
          (case r_evaluate r of
             None \<Rightarrow> \<lparr> effects = [], fulfilled = False, pageAfter = hp \<rparr>
           | Some nodes \<Rightarrow>
               let products = getProducts rnd rx cfg nodes;
                   inS = inStock cfg mc products;
                   errors' = errors products
               in if length errors' > 0
                  then (if screenshot hp r
                        then \<lparr> effects = [Screenshot ''error'',
                                           SetTimeout (errorTimeSeconds mc * 1000), PageClose],
                               fulfilled = True, pageAfter = hp \<rparr>
                        else \<lparr> effects = [], fulfilled = False, pageAfter = hp \<rparr>)
                  else if length inS = 0
                  then \<lparr> effects = [SetTimeout (refreshDelay cfg mc), PageClose],
                         fulfilled = True, pageAfter = hp \<rparr>
                  else (if screenshot hp r
                        then \<lparr> effects = [Notify inS, Screenshot ''success'',
                                           SetTimeout (successTimeSeconds mc * 1000), PageClose],
                               fulfilled = True, pageAfter = hp \<rparr>
                        else \<lparr> effects = [Notify inS], fulfilled = False, pageAfter = hp \<rparr>)))"

text \<open>The timers a check arms, and the lists it hands to the notifier.\<close>

fun timers :: "effect list \<Rightarrow> rat list" where
  "timers [] = []"
| "timers (SetTimeout d # es) = d # timers es"
| "timers (e # es) = timers es"

fun notified :: "effect list \<Rightarrow> Product list list" where
  "notified [] = []"
| "notified (Notify l # es) = l # notified es"
| "notified (e # es) = notified es"

section \<open>The admission gate and the queue\<close>

text \<open>\<open>MasterConfig.maxTabs ? MasterConfig.maxTabs : 10\<close>\<close>

definition tabCeiling :: "MasterConfig \<Rightarrow> rat" where
  "tabCeiling mc =
     (case globalMaxTabs mc of
        Some m \<Rightarrow> if truthy_num (Some m) then m else 10
      | None \<Rightarrow> 10)"

text \<open>
  \<open>Main.wait\<close>, given \<open>pages.length\<close> and the queue. An entry of the queue is the closure
  made for one call, represented by the configuration it was called with. The result is
  whether the promise is already resolved, and the queue afterwards.
\<close>

definition wait :: "MasterConfig \<Rightarrow> nat \<Rightarrow> WatchConfig list \<Rightarrow> WatchConfig \<Rightarrow> bool \<times> WatchConfig list" where
  "wait mc pages queue watchConfig =
     (if length queue > 1 \<or> of_int (int pages - 1) \<ge> tabCeiling mc
      then (False, queue @ [watchConfig])
      else (True, queue))"

text \<open>
  The callback of \<open>setInterval\<close> in \<open>Main.init\<close>: \<open>this.queue.shift()()\<close> when the queue is
  not empty and \<open>pages.length === 1\<close>. The result is the entry released, if any, and the
  queue afterwards.
\<close>

definition reclaim :: "nat \<Rightarrow> WatchConfig list \<Rightarrow> WatchConfig option \<times> WatchConfig list" where
  "reclaim pages queue =
     (if length queue > 0 \<and> pages = 1 then (Some (hd queue), tl queue) else (None, queue))"

subsection \<open>The gate among several watchers\<close>

text \<open>
  The watchers and the reclaimer run on one event loop and interleave at every \<open>await\<close>.
  The state they share is the queue of \<open>Main\<close> and the pages of the browser. A watcher that
  passed the gate opens its page in a later step (\<open>await this.browser.newPage()\<close> comes
  after \<open>await this.wait(...)\<close>); until then it is in \<open>granted\<close>. \<open>released\<close> logs the
  entries that the reclaimer has released, in order.
\<close>

record Pool =
  pages :: nat
  queue :: "WatchConfig list"
  granted :: "WatchConfig list"
  released :: "WatchConfig list"

datatype event =
    Acquire WatchConfig  \<comment> \<open>a watcher calls \<open>wait\<close>\<close>
  | Opened WatchConfig  \<comment> \<open>\<open>newPage\<close> of a watcher that passed the gate completes\<close>
  | Closed  \<comment> \<open>a \<open>page.close()\<close> completes\<close>
  | Tick  \<comment> \<open>the reclaimer's interval fires\<close>

fun step :: "MasterConfig \<Rightarrow> Pool \<Rightarrow> event \<Rightarrow> Pool" where
  "step mc s (Acquire w) =
     (case wait mc (pages s) (queue s) w of
        (True, q) \<Rightarrow> s\<lparr>queue := q, granted := granted s @ [w]\<rparr>
      | (False, q) \<Rightarrow> s\<lparr>queue := q\<rparr>)"
| "step mc s (Opened w) =
     (if w \<in> set (granted s)
      then s\<lparr>pages := pages s + 1, granted := remove1 w (granted s)\<rparr>
      else s)"
| "step mc s Closed = (if pages s > 1 then s\<lparr>pages := pages s - 1\<rparr> else s)"
| "step mc s Tick =
     (case reclaim (pages s) (queue s) of
        (Some w, q) \<Rightarrow> s\<lparr>queue := q, granted := granted s @ [w], released := released s @ [w]\<rparr>
      | (None, q) \<Rightarrow> s\<lparr>queue := q\<rparr>)"

definition run :: "MasterConfig \<Rightarrow> event list \<Rightarrow> Pool \<Rightarrow> Pool" where
  "run mc evs s = foldl (step mc) s evs"

text \<open>The page contexts open for watchers: every page but the browser's first tab.\<close>

definition openContexts :: "Pool \<Rightarrow> nat" where
  "openContexts s = pages s - 1"

text \<open>The pool after \<open>puppeteer.launch\<close>: the one blank tab, nothing queued.\<close>

definition idlePool :: Pool where
  "idlePool = \<lparr> pages = 1, queue = [], granted = [], released = [] \<rparr>"

text \<open>
  A schedule in which every watcher that passes the gate has its page open before the next
  event: each event is followed by the opening of all granted pages.
\<close>

definition openGranted :: "Pool \<Rightarrow> Pool" where
  "openGranted s = s\<lparr>pages := pages s + length (granted s), granted := []\<rparr>"

definition runPrompt :: "MasterConfig \<Rightarrow> event list \<Rightarrow> Pool \<Rightarrow> Pool" where
  "runPrompt mc evs s = foldl (\<lambda>t e. openGranted (step mc t e)) s evs"

subsection \<open>Configurations used in examples\<close>

definition shop :: "string \<Rightarrow> rat option \<Rightarrow> int \<Rightarrow> WatchConfig" where
  "shop name cap n =
     \<lparr> store = name, url = ''https://shop.example/rtx3080'', refreshSeconds = None,
       maxPrice = cap, expectedProductCount = n, outOfStockText = None, maxTabs = None,
       selectors = \<lparr> sel_product = ''.item'', sel_productAttribute = None, sel_productURL = None,
                     sel_productName = ''.name'', sel_outOfStockSelector = ''.sold-out'',
                     sel_price = ''.price'' \<rparr> \<rparr>"

definition master :: "rat option \<Rightarrow> MasterConfig" where
  "master tabs =
     \<lparr> defaultRefreshSeconds = 30, defaultMaxPrice = 1000, errorTimeSeconds = 60,
       successTimeSeconds = 300, globalMaxTabs = tabs \<rparr>"

definition elem :: "string \<Rightarrow> Elem" where
  "elem t = \<lparr> textContent = t, props = [] \<rparr>"

definition item :: "Elem query \<Rightarrow> Elem query \<Rightarrow> Elem query \<Rightarrow> ProductNode" where
  "item nameq stockq priceq =
     \<lparr> q_productName = nameq, q_productURL = NoMatch, q_outOfStock = stockq, q_price = priceq \<rparr>"

definition gpu :: "string \<Rightarrow> ProductNode" where
  "gpu priceText = item (Match (elem ''RTX 3080'')) NoMatch (Match (elem priceText))"

definition acme :: WatchConfig where
  "acme = shop ''Acme'' (Some 500) 1"

definition listed :: "string field \<Rightarrow> jsnum field \<Rightarrow> errs \<Rightarrow> Product" where
  "listed name p es =
     \<lparr> productName = name, productURL = Val ''https://shop.example/rtx3080'',
       outOfStock = Val False, price = p, errs = es \<rparr>"

definition allOk :: "ProductNode list \<Rightarrow> Responses" where
  "allOk nodes =
     \<lparr> r_wait = True, r_newPage = True, r_goto = True, r_waitForSelector = True,
       r_evaluate = Some nodes, r_screenshot = True \<rparr>"

definition noRegex :: "string \<Rightarrow> string \<Rightarrow> bool option" where
  "noRegex pat text = None"

subsection \<open>The defaults as the specification words them\<close>

text \<open>
  The specification writes the ceiling and the refresh interval with \<open>??\<close>, which falls
  back to the default only when the target's value is absent. These two definitions follow
  the specification's words, to be compared with \<open>effectiveMaxPrice\<close> and \<open>refreshDelay\<close>.
\<close>

definition nullishMaxPrice :: "WatchConfig \<Rightarrow> MasterConfig \<Rightarrow> rat" where
  "nullishMaxPrice cfg mc = (case maxPrice cfg of Some m \<Rightarrow> m | None \<Rightarrow> defaultMaxPrice mc)"

definition nullishRefreshSeconds :: "WatchConfig \<Rightarrow> MasterConfig \<Rightarrow> rat" where
  "nullishRefreshSeconds cfg mc =
     (case refreshSeconds cfg of Some s \<Rightarrow> s | None \<Rightarrow> defaultRefreshSeconds mc)"

text \<open>A pool with one page open for a watcher and two requests waiting.\<close>

definition busyPool :: Pool where
  "busyPool = \<lparr> pages = 2, queue = [shop ''B'' None 1, shop ''C'' None 1], granted = [], released = [] \<rparr>"

section \<open>Facts about the evaluator and a check\<close>

lemma notified_checkPage:
  "notified (effects (checkPage rnd rx cfg mc hp r)) =
     (case r_evaluate r of
        None \<Rightarrow> []
      | Some nodes \<Rightarrow>
          if fst (loadPage hp r) \<and> errors (getProducts rnd rx cfg nodes) = []
             \<and> inStock cfg mc (getProducts rnd rx cfg nodes) \<noteq> []
          then [inStock cfg mc (getProducts rnd rx cfg nodes)] else [])"
  by (cases "loadPage hp r"; cases "fst (loadPage hp r)")
     (auto simp: checkPage_def Let_def split: option.splits)

lemma pushError_fields [simp]:
  "price (pushError t m) = price m" "outOfStock (pushError t m) = outOfStock m"
  "productName (pushError t m) = productName m" "productURL (pushError t m) = productURL m"
  by (auto simp: pushError_def split: errs.splits)

lemma hasTag_pushError: "t \<noteq> tg \<Longrightarrow> hasTag tg (pushError t m) = hasTag tg m"
  by (auto simp: hasTag_def pushError_def split: errs.splits)

lemma countErrorText_not_Price: "countErrorText cfg n \<noteq> ''Price''"
  by (simp add: countErrorText_def)

lemma byValue_fields [simp]:
  "price (byValue m) = finiteOrNull (price m)" "outOfStock (byValue m) = outOfStock m"
  "productName (byValue m) = productName m" "productURL (byValue m) = productURL m"
  "errs (byValue m) = errs m"
  by (simp_all add: byValue_def)

lemma byValue_pushError: "byValue (pushError t m) = pushError t (byValue m)"
  by (simp add: byValue_def pushError_def split: errs.splits)

lemma hasTag_byValue [simp]: "hasTag tg (byValue m) = hasTag tg m"
  by (simp add: hasTag_def)

lemma byValue_syntheticRecord [simp]: "byValue (syntheticRecord cfg) = syntheticRecord cfg"
  by (simp add: byValue_def syntheticRecord_def)

lemma length_pageFunction:
  "length (pageFunction rnd rx cfg nodes) =
     (if nodes = [] \<and> expectedProductCount cfg \<noteq> 0 then 1 else length nodes)"
  by (auto simp: pageFunction_def Let_def)

lemma getProducts_nth:
  "i < length nodes \<Longrightarrow>
   getProducts rnd rx cfg nodes ! i =
     (if int (length nodes) \<noteq> expectedProductCount cfg \<and> i = length nodes - 1
      then pushError (countErrorText cfg (length nodes)) (byValue (extractProduct rnd rx cfg (nodes ! i)))
      else byValue (extractProduct rnd rx cfg (nodes ! i)))"
proof -
  assume i: "i < length nodes"
  then have "i < length (pageFunction rnd rx cfg nodes)"
    by (auto simp: length_pageFunction)
  then have "getProducts rnd rx cfg nodes ! i = byValue (pageFunction rnd rx cfg nodes ! i)"
    by (simp add: getProducts_def)
  with i show ?thesis
    by (auto simp: pageFunction_def Let_def nth_list_update byValue_pushError)
qed

lemma length_getProducts:
  "length (getProducts rnd rx cfg nodes) =
     (if nodes = [] \<and> expectedProductCount cfg \<noteq> 0 then 1 else length nodes)"
  by (simp add: getProducts_def length_pageFunction)

lemma extractProduct_price:
  "price (extractProduct rnd rx cfg node) =
     (case q_price node of Match e \<Rightarrow> Val (Number_js rnd (strip_price (textContent e))) | _ \<Rightarrow> Null)"
  by (simp add: extractProduct_def Let_def getPrice_def orNull_def split: query.splits)

lemma extractProduct_Price_tag:
  "hasTag ''Price'' (extractProduct rnd rx cfg node) =
     (case q_price node of Match e \<Rightarrow> False | _ \<Rightarrow> True)"
  by (auto simp: hasTag_def extractProduct_def Let_def getPrice_def tag_def
        split: query.splits option.splits)

section \<open>The two selections of one check\<close>

text \<open>
  C1, as stated: the \<open>inStock\<close> selection and the \<open>errors\<close> selection of a list of records
  never share a record. It fails: \<open>inStock\<close> does not read the tags. A product whose name
  could not be read, priced 499.99 under a ceiling of 500, is returned by both.
\<close>

theorem C1_counterexample:
  "getProducts Num noRegex acme [item NoMatch NoMatch (Match (elem ''$499.99''))]
     = [listed Null (Val (Num (49999 / 100))) (ErrList [''Product name''])]
   \<and> inStock acme (master None) [listed Null (Val (Num (49999 / 100))) (ErrList [''Product name''])]
     = [listed Null (Val (Num (49999 / 100))) (ErrList [''Product name''])]
   \<and> errors [listed Null (Val (Num (49999 / 100))) (ErrList [''Product name''])]
     = [listed Null (Val (Num (49999 / 100))) (ErrList [''Product name''])]"
  by code_simp

text \<open>
  C1, amended: the separation is made by \<open>checkPage\<close>, which looks at the \<open>errors\<close> selection
  first. Whenever a check hands a list to the notifier, that list is the \<open>inStock\<close> selection
  of the records, the \<open>errors\<close> selection of the same records is empty, and so the two are
  disjoint.
\<close>

theorem C1_notified_disjoint_from_errors:
  assumes "r_evaluate r = Some nodes"
    and "l \<in> set (notified (effects (checkPage rnd rx cfg mc hp r)))"
  shows "l = inStock cfg mc (getProducts rnd rx cfg nodes)
       \<and> errors (getProducts rnd rx cfg nodes) = []
       \<and> set l \<inter> set (errors (getProducts rnd rx cfg nodes)) = {}"
  using assms by (simp add: notified_checkPage split: if_splits)

theorem C1_witness:
  "r_evaluate (allOk [gpu ''$499.99'']) = Some [gpu ''$499.99'']
   \<and> [listed (Val ''RTX 3080'') (Val (Num (49999 / 100))) NoErrs]
        \<in> set (notified (effects (checkPage Num noRegex acme (master None) False (allOk [gpu ''$499.99'']))))
   \<and> set [listed (Val ''RTX 3080'') (Val (Num (49999 / 100))) NoErrs]
        \<inter> set (errors (getProducts Num noRegex acme [gpu ''$499.99''])) = {}"
proof -
  have ev: "r_evaluate (allOk [gpu ''$499.99'']) = Some [gpu ''$499.99'']"
    by (simp add: allOk_def)
  have mem: "[listed (Val ''RTX 3080'') (Val (Num (49999 / 100))) NoErrs]
        \<in> set (notified (effects (checkPage Num noRegex acme (master None) False (allOk [gpu ''$499.99'']))))"
    by code_simp
  from C1_notified_disjoint_from_errors [OF ev mem] ev mem show ?thesis by simp
qed

lemma getProducts_mem:
  assumes "p \<in> set (getProducts rnd rx cfg nodes)"
  shows "p = syntheticRecord cfg \<or>
         (\<exists>node. p = byValue (extractProduct rnd rx cfg node)
             \<or> p = pushError (countErrorText cfg (length nodes)) (byValue (extractProduct rnd rx cfg node)))"
proof (cases "nodes = []")
  case True
  with assms show ?thesis by (auto simp: getProducts_def pageFunction_def Let_def split: if_splits)
next
  case False
  then have len: "length (getProducts rnd rx cfg nodes) = length nodes"
    by (simp add: length_getProducts)
  from assms obtain i where i: "i < length (getProducts rnd rx cfg nodes)"
    and p: "p = getProducts rnd rx cfg nodes ! i"
    by (auto simp: in_set_conv_nth)
  from i len have "i < length nodes" by simp
  from getProducts_nth [OF this, of rnd rx cfg] p show ?thesis by (auto split: if_splits)
qed

lemma Price_tag_price_Null:
  assumes "p \<in> set (getProducts rnd rx cfg nodes)" and "hasTag ''Price'' p"
  shows "price p = Null"
proof -
  have "hasTag ''Price'' (extractProduct rnd rx cfg node) \<Longrightarrow> price (extractProduct rnd rx cfg node) = Null" for node
    by (simp only: extractProduct_Price_tag extractProduct_price split: query.splits) auto
  then have ex: "hasTag ''Price'' (byValue (extractProduct rnd rx cfg node))
      \<Longrightarrow> price (byValue (extractProduct rnd rx cfg node)) = Null" for node
    by simp
  have syn: "\<not> hasTag ''Price'' (syntheticRecord cfg)"
    by (simp add: syntheticRecord_def hasTag_def)
  have push: "hasTag ''Price'' (pushError (countErrorText cfg n) m) = hasTag ''Price'' m" for n m
    by (rule hasTag_pushError [OF countErrorText_not_Price])
  from getProducts_mem [OF assms(1)] consider "p = syntheticRecord cfg"
    | node where "p = byValue (extractProduct rnd rx cfg node)"
    | node where "p = pushError (countErrorText cfg (length nodes)) (byValue (extractProduct rnd rx cfg node))"
    by blast
  then show ?thesis
  proof cases
    case 1
    with assms(2) syn show ?thesis by simp
  next
    case 2
    with assms(2) ex show ?thesis by simp
  next
    case 3
    with assms(2) have "hasTag ''Price'' (byValue (extractProduct rnd rx cfg node))"
      by (simp only: push)
    with 3 ex show ?thesis by simp
  qed
qed

lemma hasTag_has_errors: "hasTag t p \<Longrightarrow> has_errors p"
  by (auto simp: hasTag_def has_errors_def split: errs.splits)

text \<open>
  C2, as stated: a record whose price could not be resolved, so that it carries the tag
  \<open>Price\<close>, is never in the \<open>inStock\<close> selection. It fails: the price of such a record is
  \<open>null\<close>, not \<open>undefined\<close>, and \<open>null < 500\<close> is \<open>0 < 500\<close>. A product with no price
  element and no out-of-stock marker is selected.
\<close>

theorem C2_counterexample:
  "getProducts Num noRegex acme [item (Match (elem ''RTX 3080'')) NoMatch NoMatch]
     = [listed (Val ''RTX 3080'') Null (ErrList [''Price''])]
   \<and> inStock acme (master None) [listed (Val ''RTX 3080'') Null (ErrList [''Price''])]
     = [listed (Val ''RTX 3080'') Null (ErrList [''Price''])]"
  by code_simp

text \<open>
  C2, amended: a check whose records include one with the tag \<open>Price\<close> hands nothing to the
  notifier, for any configuration and any ceiling, because it takes the error branch. The
  price of such a record is \<open>null\<close>, and the \<open>inStock\<close> selection on its own returns the
  record exactly when its \<open>outOfStock\<close> is falsy and the effective ceiling is positive.
\<close>

theorem C2_unresolved_price_not_notified:
  assumes "r_evaluate r = Some nodes"
    and "p \<in> set (getProducts rnd rx cfg nodes)"
    and "hasTag ''Price'' p"
  shows "notified (effects (checkPage rnd rx cfg mc hp r)) = []
       \<and> price p = Null
       \<and> (p \<in> set (inStock cfg mc (getProducts rnd rx cfg nodes)))
           = (\<not> truthy_bool (outOfStock p) \<and> 0 < effectiveMaxPrice cfg mc)"
proof -
  from assms(3) have "has_errors p" by (rule hasTag_has_errors)
  with assms(2) have "errors (getProducts rnd rx cfg nodes) \<noteq> []"
    by (auto simp: errors_def filter_empty_conv)
  with assms(1) have n: "notified (effects (checkPage rnd rx cfg mc hp r)) = []"
    by (simp add: notified_checkPage)
  have pn: "price p = Null" using assms(2,3) by (rule Price_tag_price_Null)
  from pn assms(2) have "(p \<in> set (inStock cfg mc (getProducts rnd rx cfg nodes)))
           = (\<not> truthy_bool (outOfStock p) \<and> 0 < effectiveMaxPrice cfg mc)"
    by (simp add: inStock_def)
  with n pn show ?thesis by simp
qed

theorem C2_witness:
  "r_evaluate (allOk [item (Match (elem ''RTX 3080'')) NoMatch NoMatch])
      = Some [item (Match (elem ''RTX 3080'')) NoMatch NoMatch]
   \<and> listed (Val ''RTX 3080'') Null (ErrList [''Price''])
        \<in> set (getProducts Num noRegex acme [item (Match (elem ''RTX 3080'')) NoMatch NoMatch])
   \<and> hasTag ''Price'' (listed (Val ''RTX 3080'') Null (ErrList [''Price'']))
   \<and> notified (effects (checkPage Num noRegex acme (master None) False
        (allOk [item (Match (elem ''RTX 3080'')) NoMatch NoMatch]))) = []"
proof -
  have ev: "r_evaluate (allOk [item (Match (elem ''RTX 3080'')) NoMatch NoMatch])
      = Some [item (Match (elem ''RTX 3080'')) NoMatch NoMatch]"
    by (simp add: allOk_def)
  have mem: "listed (Val ''RTX 3080'') Null (ErrList [''Price''])
        \<in> set (getProducts Num noRegex acme [item (Match (elem ''RTX 3080'')) NoMatch NoMatch])"
    by code_simp
  have tg: "hasTag ''Price'' (listed (Val ''RTX 3080'') Null (ErrList [''Price'']))"
    by code_simp
  from C2_unresolved_price_not_notified [OF ev mem tg] ev mem tg show ?thesis by simp
qed

section \<open>The admission gate\<close>

text \<open>
  C3, as stated: \<open>wait\<close> resolves at once if and only if the open contexts are below the
  ceiling and the queue is empty. It fails: the test is \<open>this.queue.length > 1\<close>, so with
  one request waiting and no page open, the next request is not queued.
\<close>

theorem C3_counterexample:
  "wait (master None) 1 [shop ''A'' None 1] (shop ''B'' None 1) = (True, [shop ''A'' None 1])"
  by code_simp

text \<open>
  C3, amended: \<open>wait\<close> resolves at once if and only if the number of pages minus one is
  below the global ceiling and at most one request is waiting; otherwise it appends its
  token at the end of the queue. The ceiling is the global \<open>maxTabs\<close> when that is set and
  not zero, and 10 otherwise; the target's own \<open>maxTabs\<close> is not read. The reclaimer calls
  only the head of the queue.
\<close>

theorem C3_wait_gate:
  "fst (wait mc n q w) = (of_int (int n - 1) < tabCeiling mc \<and> length q \<le> 1)
   \<and> snd (wait mc n q w) = (if fst (wait mc n q w) then q else q @ [w])
   \<and> fst (wait mc n q (w\<lparr>maxTabs := t\<rparr>)) = fst (wait mc n q w)
   \<and> tabCeiling mc = (case globalMaxTabs mc of None \<Rightarrow> 10 | Some m \<Rightarrow> if m = 0 then 10 else m)
   \<and> reclaim n q = (if q \<noteq> [] \<and> n = 1 then (Some (hd q), tl q) else (None, q))"
  by (auto simp: wait_def tabCeiling_def reclaim_def split: option.splits)

section \<open>The price ceiling\<close>

text \<open>
  C4, as stated: a record qualifies only if its price is below
  \<open>target.maxPrice ?? global.defaultMaxPrice\<close>. It fails where \<open>??\<close> and the code's
  \<open>? :\<close> differ: with \<open>maxPrice = 0\<close> the code falls back to the default ceiling (1000
  here), and a record priced 500 qualifies although 500 is not below 0.
\<close>

theorem C4_counterexample:
  "inStock (shop ''Acme'' (Some 0) 1) (master None) [listed (Val ''RTX 3080'') (Val (Num 500)) NoErrs]
     = [listed (Val ''RTX 3080'') (Val (Num 500)) NoErrs]
   \<and> nullishMaxPrice (shop ''Acme'' (Some 0) 1) (master None) = 0
   \<and> \<not> js_lt (ToNumber (price (listed (Val ''RTX 3080'') (Val (Num 500)) NoErrs)))
          (Num (nullishMaxPrice (shop ''Acme'' (Some 0) 1) (master None)))"
  by code_simp

text \<open>
  C4, amended: a record with a numeric price is in the \<open>inStock\<close> selection if and only if
  its \<open>outOfStock\<close> is falsy and its price is strictly below the effective ceiling, where the
  effective ceiling is \<open>target.maxPrice\<close> when that is set and not zero, and the global
  default otherwise. So a record priced exactly at the ceiling never qualifies and one priced
  0.01 below it, not out of stock, does.
\<close>

theorem C4_price_boundary:
  assumes "p \<in> set ps" and "price p = Val (Num x)"
  shows "(p \<in> set (inStock cfg mc ps)) = (\<not> truthy_bool (outOfStock p) \<and> x < effectiveMaxPrice cfg mc)
       \<and> effectiveMaxPrice cfg mc
           = (case maxPrice cfg of None \<Rightarrow> defaultMaxPrice mc
              | Some m \<Rightarrow> if m = 0 then defaultMaxPrice mc else m)"
  using assms by (auto simp: inStock_def effectiveMaxPrice_def split: option.splits)

theorem C4_witness:
  "listed (Val ''RTX 3080'') (Val (Num 500)) NoErrs
      \<notin> set (inStock acme (master None)
               [listed (Val ''RTX 3080'') (Val (Num 500)) NoErrs,
                listed (Val ''RTX 3080'') (Val (Num (500 - 1 / 100))) NoErrs])
   \<and> listed (Val ''RTX 3080'') (Val (Num (500 - 1 / 100))) NoErrs
      \<in> set (inStock acme (master None)
               [listed (Val ''RTX 3080'') (Val (Num 500)) NoErrs,
                listed (Val ''RTX 3080'') (Val (Num (500 - 1 / 100))) NoErrs])
   \<and> effectiveMaxPrice acme (master None) = 500
   \<and> effectiveMaxPrice (shop ''Acme'' None 1) (master None) = 1000"
proof -
  let ?a = "listed (Val ''RTX 3080'') (Val (Num 500)) NoErrs"
  let ?b = "listed (Val ''RTX 3080'') (Val (Num (500 - 1 / 100))) NoErrs"
  have ma: "?a \<in> set [?a, ?b]" and mb: "?b \<in> set [?a, ?b]" by simp_all
  have pa: "price ?a = Val (Num 500)" and pb: "price ?b = Val (Num (500 - 1 / 100))"
    by (simp_all add: listed_def)
  have oa: "\<not> truthy_bool (outOfStock ?a)" and ob: "\<not> truthy_bool (outOfStock ?b)"
    by (simp_all add: listed_def)
  have c1: "effectiveMaxPrice acme (master None) = 500"
    and c2: "effectiveMaxPrice (shop ''Acme'' None 1) (master None) = 1000"
    by (simp_all add: effectiveMaxPrice_def acme_def shop_def master_def)
  from C4_price_boundary [OF ma pa, of acme "master None"]
       C4_price_boundary [OF mb pb, of acme "master None"] oa ob c1 c2
  show ?thesis by simp
qed

section \<open>The delay before the next check\<close>

lemma timers_checkPage:
  assumes "loadPage hp r = (True, hp')" and "r_evaluate r = Some nodes"
    and "r_screenshot r \<or> (errors (getProducts rnd rx cfg nodes) = []
                             \<and> inStock cfg mc (getProducts rnd rx cfg nodes) = [])"
  shows "timers (effects (checkPage rnd rx cfg mc hp r)) =
     [if errors (getProducts rnd rx cfg nodes) \<noteq> [] then errorTimeSeconds mc * 1000
      else if inStock cfg mc (getProducts rnd rx cfg nodes) = [] then refreshDelay cfg mc
      else successTimeSeconds mc * 1000]"
proof -
  from assms(1) have "hp'" by (auto simp: loadPage_def split: if_splits)
  with assms show ?thesis
    by (auto simp: checkPage_def Let_def screenshot_def)
qed

text \<open>
  C5, as stated: with no error and nothing in stock the delay is
  \<open>target.refreshSeconds ?? global.defaultRefreshSeconds\<close>. It fails where \<open>??\<close> and the
  code's \<open>? :\<close> differ: with \<open>refreshSeconds = 0\<close> the timer is armed with the default
  interval (30 s here), not with 0.
\<close>

theorem C5_counterexample:
  "timers (effects (checkPage Num noRegex (acme\<lparr>refreshSeconds := Some 0\<rparr>) (master None) False
      (allOk [gpu ''$500.00'']))) = [30000]
   \<and> nullishRefreshSeconds (acme\<lparr>refreshSeconds := Some 0\<rparr>) (master None) * 1000 = 0
   \<and> errors (getProducts Num noRegex (acme\<lparr>refreshSeconds := Some 0\<rparr>) [gpu ''$500.00'']) = []
   \<and> inStock (acme\<lparr>refreshSeconds := Some 0\<rparr>) (master None)
        (getProducts Num noRegex (acme\<lparr>refreshSeconds := Some 0\<rparr>) [gpu ''$500.00'']) = []"
  by code_simp

text \<open>
  C5, amended: for every check that completes evaluation and whose screenshot, where one is
  taken, resolves (none is taken when there is no error and nothing in stock), exactly one
  timer is armed and its delay follows the outcome: the error interval if the \<open>errors\<close>
  selection is not empty; otherwise, if the \<open>inStock\<close> selection is empty,
  \<open>target.refreshSeconds\<close> when that is set and not zero and the global default refresh
  interval otherwise; otherwise the success interval. The notifier is fired in the last case
  only, with the \<open>inStock\<close> selection.
\<close>

theorem C5_delay_by_outcome:
  assumes "loadPage hp r = (True, hp')" and "r_evaluate r = Some nodes"
    and "r_screenshot r \<or> (errors (getProducts rnd rx cfg nodes) = []
                             \<and> inStock cfg mc (getProducts rnd rx cfg nodes) = [])"
  shows "timers (effects (checkPage rnd rx cfg mc hp r)) =
           [if errors (getProducts rnd rx cfg nodes) \<noteq> [] then errorTimeSeconds mc * 1000
            else if inStock cfg mc (getProducts rnd rx cfg nodes) = [] then refreshDelay cfg mc
            else successTimeSeconds mc * 1000]
       \<and> notified (effects (checkPage rnd rx cfg mc hp r)) =
           (if errors (getProducts rnd rx cfg nodes) = []
               \<and> inStock cfg mc (getProducts rnd rx cfg nodes) \<noteq> []
            then [inStock cfg mc (getProducts rnd rx cfg nodes)] else [])
       \<and> refreshDelay cfg mc =
           (case refreshSeconds cfg of None \<Rightarrow> defaultRefreshSeconds mc * 1000
            | Some s \<Rightarrow> if s = 0 then defaultRefreshSeconds mc * 1000 else s * 1000)"
proof -
  have d: "refreshDelay cfg mc =
           (case refreshSeconds cfg of None \<Rightarrow> defaultRefreshSeconds mc * 1000
            | Some s \<Rightarrow> if s = 0 then defaultRefreshSeconds mc * 1000 else s * 1000)"
    by (simp add: refreshDelay_def split: option.splits)
  from assms(1,2) have n: "notified (effects (checkPage rnd rx cfg mc hp r)) =
           (if errors (getProducts rnd rx cfg nodes) = []
               \<and> inStock cfg mc (getProducts rnd rx cfg nodes) \<noteq> []
            then [inStock cfg mc (getProducts rnd rx cfg nodes)] else [])"
    by (simp add: notified_checkPage)
  from timers_checkPage [OF assms] n d show ?thesis by blast
qed

theorem C5_witness:
  "timers (effects (checkPage Num noRegex acme (master None) False (allOk [gpu ''$499.99'']))) = [300000]
   \<and> notified (effects (checkPage Num noRegex acme (master None) False (allOk [gpu ''$499.99''])))
       = [[listed (Val ''RTX 3080'') (Val (Num (49999 / 100))) NoErrs]]
   \<and> timers (effects (checkPage Num noRegex acme (master None) False
        ((allOk [gpu ''$500.00''])\<lparr>r_screenshot := False\<rparr>))) = [30000]
   \<and> notified (effects (checkPage Num noRegex acme (master None) False
        ((allOk [gpu ''$500.00''])\<lparr>r_screenshot := False\<rparr>))) = []
   \<and> timers (effects (checkPage Num noRegex acme (master None) False (allOk []))) = [60000]
   \<and> notified (effects (checkPage Num noRegex acme (master None) False (allOk []))) = []
   \<and> timers (effects (checkPage Num noRegex acme (master None) False (allOk [gpu ''1.2.3'']))) = [300000]
   \<and> notified (effects (checkPage Num noRegex acme (master None) False (allOk [gpu ''1.2.3''])))
       = [[listed (Val ''RTX 3080'') Null NoErrs]]"
proof -
  have l: "loadPage False (allOk ns) = (True, True)"
    and l': "loadPage False ((allOk ns)\<lparr>r_screenshot := False\<rparr>) = (True, True)" for ns
    by (simp_all add: loadPage_def allOk_def)
  have e: "r_evaluate (allOk ns) = Some ns"
    and e': "r_evaluate ((allOk ns)\<lparr>r_screenshot := False\<rparr>) = Some ns" for ns
    by (simp_all add: allOk_def)
  have a: "errors (getProducts Num noRegex acme [gpu ''$499.99'']) = []"
    "inStock acme (master None) (getProducts Num noRegex acme [gpu ''$499.99''])
       = [listed (Val ''RTX 3080'') (Val (Num (49999 / 100))) NoErrs]"
    by code_simp+
  have b: "errors (getProducts Num noRegex acme [gpu ''$500.00'']) = []"
    "inStock acme (master None) (getProducts Num noRegex acme [gpu ''$500.00'']) = []"
    by code_simp+
  have c: "errors (getProducts Num noRegex acme []) \<noteq> []"
    by code_simp
  have g: "errors (getProducts Num noRegex acme [gpu ''1.2.3'']) = []"
    "inStock acme (master None) (getProducts Num noRegex acme [gpu ''1.2.3''])
       = [listed (Val ''RTX 3080'') Null NoErrs]"
    by code_simp+
  have m: "successTimeSeconds (master None) * 1000 = 300000"
    "errorTimeSeconds (master None) * 1000 = 60000" "refreshDelay acme (master None) = 30000"
    by (simp_all add: master_def refreshDelay_def acme_def shop_def)
  have s: "r_screenshot (allOk ns) \<or> P" for ns P
    by (simp add: allOk_def)
  have s': "r_screenshot ((allOk [gpu ''$500.00''])\<lparr>r_screenshot := False\<rparr>)
      \<or> (errors (getProducts Num noRegex acme [gpu ''$500.00'']) = []
          \<and> inStock acme (master None) (getProducts Num noRegex acme [gpu ''$500.00'']) = [])"
    using b by simp
  note C5 = C5_delay_by_outcome [where rnd = Num and rx = noRegex and cfg = acme
      and mc = "master None"]
  from C5 [OF l e s, of "[gpu ''$499.99'']"] C5 [OF l' e' s']
       C5 [OF l e s, of "[]"] C5 [OF l e s, of "[gpu ''1.2.3'']"]
       a b c g m
  show ?thesis by simp
qed

section \<open>A check that arms no timer\<close>

text \<open>
  C6: every path through a check, the page-load failure path included, arms exactly one
  timer. The \<open>catch\<close> of \<open>checkPage\<close> awaits the error screenshot before it arms the timer.
  On the first check of a watcher, when \<open>browser.newPage()\<close> rejects, \<open>this.page\<close> is still
  unassigned, \<open>this.page.screenshot\<close> throws, and the check ends with no timer armed: the
  watcher never checks again.
\<close>

theorem C6_load_failure_arms_no_timer:
  "checkPage Num noRegex acme (master None) False ((allOk [gpu ''$499.99''])\<lparr>r_newPage := False\<rparr>)
     = \<lparr> effects = [], fulfilled = False, pageAfter = False \<rparr>
   \<and> timers (effects (checkPage Num noRegex acme (master None) False
        ((allOk [gpu ''$499.99''])\<lparr>r_newPage := False\<rparr>))) = []"
  by code_simp

text \<open>
  What does hold: when \<open>this.page\<close> is assigned by the time a screenshot is taken, the
  screenshot resolves and \<open>evaluate\<close> resolves, every path arms exactly one timer, whatever
  the page holds and whether or not the load succeeds.
\<close>

lemma checkPage_arms_one_timer:
  assumes "r_screenshot r" and "hp \<or> (r_wait r \<and> r_newPage r)" and "r_evaluate r = Some nodes"
  shows "length (timers (effects (checkPage rnd rx cfg mc hp r))) = 1
       \<and> fulfilled (checkPage rnd rx cfg mc hp r)"
proof (cases "loadPage hp r")
  case (Pair ok hp')
  from assms(2) Pair have "hp'" by (cases ok) (auto simp: loadPage_def split: if_splits)
  with assms(1,3) Pair show ?thesis
    by (cases ok) (auto simp: checkPage_def screenshot_def Let_def)
qed

section \<open>Parsing the price and counting the items\<close>

lemma getProducts_nth_price:
  assumes "i < length nodes"
  shows "price (getProducts rnd rx cfg nodes ! i)
           = finiteOrNull (price (extractProduct rnd rx cfg (nodes ! i)))"
    and "outOfStock (getProducts rnd rx cfg nodes ! i) = outOfStock (extractProduct rnd rx cfg (nodes ! i))"
    and "hasTag ''Price'' (getProducts rnd rx cfg nodes ! i)
           = hasTag ''Price'' (extractProduct rnd rx cfg (nodes ! i))"
  using assms
  by (simp_all add: getProducts_nth hasTag_pushError [OF countErrorText_not_Price])

text \<open>
  C7: whenever the parse of the price text gives a result that is not a number, the record
  carries the tag \<open>Price\<close>. The parse sits in a \<open>try\<close> whose \<open>catch\<close> pushes the tag, but
  \<open>Number\<close> does not throw. The text \<open>1.2.3\<close> keeps its two dots and parses to NaN; no tag
  is pushed; the NaN arrives at the watcher as \<open>null\<close>; \<open>null < 500\<close> holds, and the check
  notifies the record as in stock.
\<close>

theorem C7_malformed_price_untagged:
  "strip_price ''1.2.3'' = ''1.2.3''
   \<and> Number_js Num ''1.2.3'' = NaN
   \<and> pageFunction Num noRegex acme [gpu ''1.2.3''] = [listed (Val ''RTX 3080'') (Val NaN) NoErrs]
   \<and> getProducts Num noRegex acme [gpu ''1.2.3''] = [listed (Val ''RTX 3080'') Null NoErrs]
   \<and> hasTag ''Price'' (listed (Val ''RTX 3080'') Null NoErrs) = False
   \<and> effects (checkPage Num noRegex acme (master None) False (allOk [gpu ''1.2.3'']))
       = [Notify [listed (Val ''RTX 3080'') Null NoErrs], Screenshot ''success'',
          SetTimeout 300000, PageClose]"
  by code_simp

text \<open>
  What does hold of the price of a record: it is \<open>Number\<close> of the text with every character
  that is not a digit or a decimal point deleted when that is a finite number, and \<open>null\<close>
  otherwise; the tag \<open>Price\<close> is recorded exactly when the price element cannot be read.
\<close>

lemma getProducts_price_and_tag:
  assumes "i < length nodes"
  shows "price (getProducts rnd rx cfg nodes ! i) =
           (case q_price (nodes ! i) of
              Match e \<Rightarrow>
                finiteOrNull (Val (Number_js rnd (filter (\<lambda>c. c \<in> set ''0123456789.'') (textContent e))))
            | _ \<Rightarrow> Null)
       \<and> hasTag ''Price'' (getProducts rnd rx cfg nodes ! i) =
           (case q_price (nodes ! i) of Match e \<Rightarrow> False | _ \<Rightarrow> True)"
proof -
  have f: "strip_price t = filter (\<lambda>c. c \<in> set ''0123456789.'') t" for t
    unfolding strip_price_def is_digit_def by (rule filter_cong) auto
  show ?thesis
    by (simp add: getProducts_nth_price [OF assms] extractProduct_price extractProduct_Price_tag f
          split: query.splits)
qed

text \<open>
  C8: when the number of extracted items differs from \<open>expectedProductCount\<close>: with no item
  extracted the evaluator returns exactly one record, the synthetic error record (which the
  \<open>errors\<close> selection returns); with one or more items it returns as many records as
  items, all but the last as extracted, and the last with the count-mismatch text appended to
  its tags.
\<close>

theorem C8_count_mismatch:
  assumes "int (length nodes) \<noteq> expectedProductCount cfg"
  shows "(if length nodes = 0
          then getProducts rnd rx cfg nodes = [syntheticRecord cfg]
          else length (getProducts rnd rx cfg nodes) = length nodes
             \<and> butlast (getProducts rnd rx cfg nodes)
                 = map (\<lambda>n. byValue (extractProduct rnd rx cfg n)) (butlast nodes)
             \<and> last (getProducts rnd rx cfg nodes)
                 = (byValue (extractProduct rnd rx cfg (last nodes)))
                     \<lparr>errs := ErrList (tagsOf (extractProduct rnd rx cfg (last nodes))
                                        @ [countErrorText cfg (length nodes)])\<rparr>)
       \<and> errors [syntheticRecord cfg] = [syntheticRecord cfg]"
proof -
  have syn: "errors [syntheticRecord cfg] = [syntheticRecord cfg]"
    by (simp add: errors_def has_errors_def syntheticRecord_def loadErrorText_def)
  have noText: "errs (extractProduct rnd rx cfg n) \<noteq> ErrText s" for n s
    by (simp add: extractProduct_def Let_def)
  have push: "pushError t (byValue (extractProduct rnd rx cfg n))
      = (byValue (extractProduct rnd rx cfg n))
          \<lparr>errs := ErrList (tagsOf (extractProduct rnd rx cfg n) @ [t])\<rparr>" for t n
    using noText [of n] by (simp add: pushError_def tagsOf_def split: errs.splits)
  show ?thesis
  proof (cases "nodes = []")
    case True
    with assms syn show ?thesis by (simp add: getProducts_def pageFunction_def)
  next
    case False
    let ?g = "getProducts rnd rx cfg nodes"
    from False have len: "length ?g = length nodes" by (simp add: length_getProducts)
    have nth: "?g ! i = (if i = length nodes - 1
        then pushError (countErrorText cfg (length nodes)) (byValue (extractProduct rnd rx cfg (nodes ! i)))
        else byValue (extractProduct rnd rx cfg (nodes ! i)))" if "i < length nodes" for i
      using getProducts_nth [OF that, of rnd rx cfg] assms by simp
    have 2: "butlast ?g = map (\<lambda>n. byValue (extractProduct rnd rx cfg n)) (butlast nodes)"
      by (rule nth_equalityI) (simp_all add: len nth nth_butlast)
    from False len have "?g \<noteq> []" by auto
    then have "last ?g = ?g ! (length nodes - 1)" by (simp add: last_conv_nth len)
    also from False have "\<dots> = pushError (countErrorText cfg (length nodes))
        (byValue (extractProduct rnd rx cfg (nodes ! (length nodes - 1))))"
      by (simp add: nth)
    also from False have "nodes ! (length nodes - 1) = last nodes" by (simp add: last_conv_nth)
    finally have 3: "last ?g = pushError (countErrorText cfg (length nodes))
        (byValue (extractProduct rnd rx cfg (last nodes)))" .
    from False len 2 3 syn show ?thesis by (simp add: push)
  qed
qed

theorem C8_witness:
  "int (length ([] :: ProductNode list)) \<noteq> expectedProductCount (shop ''Acme'' (Some 500) 2)
   \<and> getProducts Num noRegex (shop ''Acme'' (Some 500) 2) [] = [syntheticRecord (shop ''Acme'' (Some 500) 2)]
   \<and> int (length [gpu ''$499.99'']) \<noteq> expectedProductCount (shop ''Acme'' (Some 500) 2)
   \<and> length (getProducts Num noRegex (shop ''Acme'' (Some 500) 2) [gpu ''$499.99'']) = 1
   \<and> last (getProducts Num noRegex (shop ''Acme'' (Some 500) 2) [gpu ''$499.99''])
        = listed (Val ''RTX 3080'') (Val (Num (49999 / 100)))
            (ErrList [''Did not find the expected number of results for Acme.  Expected 2, found 1.''])"
proof -
  let ?cfg = "shop ''Acme'' (Some 500) 2"
  have h0: "int (length ([] :: ProductNode list)) \<noteq> expectedProductCount ?cfg"
    and h1: "int (length [gpu ''$499.99'']) \<noteq> expectedProductCount ?cfg"
    by (simp_all add: shop_def)
  have e: "(byValue (extractProduct Num noRegex ?cfg (last [gpu ''$499.99''])))
             \<lparr>errs := ErrList (tagsOf (extractProduct Num noRegex ?cfg (last [gpu ''$499.99'']))
                                @ [countErrorText ?cfg (length [gpu ''$499.99''])])\<rparr>
           = listed (Val ''RTX 3080'') (Val (Num (49999 / 100)))
               (ErrList [''Did not find the expected number of results for Acme.  Expected 2, found 1.''])"
    by code_simp
  from C8_count_mismatch [OF h0, of Num noRegex] C8_count_mismatch [OF h1, of Num noRegex] h0 h1 e
  show ?thesis by simp
qed

text \<open>
  C10: when the price element exists but its text has no digit and no decimal point, the
  record has the numeric price 0 and no tag \<open>Price\<close>, and if its \<open>outOfStock\<close> is falsy it
  is in the \<open>inStock\<close> selection for every positive effective ceiling.
\<close>

theorem C10_blank_price_in_stock:
  assumes "i < length nodes"
    and "q_price (nodes ! i) = Match e"
    and "list_all (\<lambda>c. c \<notin> set ''0123456789.'') (textContent e)"
    and "\<not> truthy_bool (outOfStock (getProducts rnd rx cfg nodes ! i))"
    and "0 < effectiveMaxPrice cfg mc"
  shows "price (getProducts rnd rx cfg nodes ! i) = Val (Num 0)
       \<and> \<not> hasTag ''Price'' (getProducts rnd rx cfg nodes ! i)
       \<and> getProducts rnd rx cfg nodes ! i \<in> set (inStock cfg mc (getProducts rnd rx cfg nodes))"
proof -
  from assms(3) have "strip_price (textContent e) = []"
    by (auto simp: strip_price_def is_digit_def filter_empty_conv list_all_iff)
  then have z: "Number_js rnd (strip_price (textContent e)) = Num 0"
    by (simp add: Number_js_def)
  from assms(1,2) z have p: "price (getProducts rnd rx cfg nodes ! i) = Val (Num 0)"
    by (simp add: getProducts_nth_price extractProduct_price)
  from assms(1,2) have t: "\<not> hasTag ''Price'' (getProducts rnd rx cfg nodes ! i)"
    by (simp add: getProducts_nth_price extractProduct_Price_tag)
  from assms(1) have "nodes \<noteq> []" by auto
  with assms(1) have "i < length (getProducts rnd rx cfg nodes)"
    by (simp add: length_getProducts)
  then have "getProducts rnd rx cfg nodes ! i \<in> set (getProducts rnd rx cfg nodes)"
    by (rule nth_mem)
  with p assms(4,5) have "getProducts rnd rx cfg nodes ! i \<in> set (inStock cfg mc (getProducts rnd rx cfg nodes))"
    by (simp add: inStock_def)
  with p t show ?thesis by simp
qed

theorem C10_witness:
  "(0::nat) < length [gpu ''Call for price'']
   \<and> q_price ([gpu ''Call for price''] ! 0) = Match (elem ''Call for price'')
   \<and> getProducts Num noRegex acme [gpu ''Call for price''] ! 0
       = listed (Val ''RTX 3080'') (Val (Num 0)) NoErrs
   \<and> getProducts Num noRegex acme [gpu ''Call for price''] ! 0
       \<in> set (inStock acme (master None) (getProducts Num noRegex acme [gpu ''Call for price'']))"
proof -
  let ?ns = "[gpu ''Call for price'']"
  have h1: "(0::nat) < length ?ns" by simp
  have h2: "q_price (?ns ! 0) = Match (elem ''Call for price'')" by (simp add: gpu_def item_def)
  have h3: "list_all (\<lambda>c. c \<notin> set ''0123456789.'') (textContent (elem ''Call for price''))"
    by (simp add: elem_def)
  have g: "getProducts Num noRegex acme ?ns ! 0 = listed (Val ''RTX 3080'') (Val (Num 0)) NoErrs"
    by code_simp
  have h4: "\<not> truthy_bool (outOfStock (getProducts Num noRegex acme ?ns ! 0))"
    by (simp add: g listed_def)
  have h5: "0 < effectiveMaxPrice acme (master None)"
    by (simp add: effectiveMaxPrice_def acme_def shop_def)
  from C10_blank_price_in_stock [OF h1 h2 h3 h4 h5] h1 h2 g show ?thesis by simp
qed

section \<open>The gate among several watchers: order of release and the bound\<close>

lemma step_fifo:
  "\<exists>ws. released (step mc s e) @ queue (step mc s e) = (released s @ queue s) @ ws"
proof (cases e)
  case (Acquire w)
  then show ?thesis by (auto simp: wait_def)
next
  case (Opened w)
  then show ?thesis by simp
next
  case Closed
  then show ?thesis by simp
next
  case Tick
  then show ?thesis by (cases "queue s") (auto simp: reclaim_def)
qed

lemma step_released_prefix: "prefix (released s) (released (step mc s e))"
proof (cases e)
  case (Acquire w)
  then show ?thesis by (auto simp: wait_def)
next
  case Tick
  then show ?thesis by (auto simp: reclaim_def)
qed simp_all

lemma run_fifo:
  "prefix (released s @ queue s) (released (run mc evs s) @ queue (run mc evs s))
   \<and> prefix (released s) (released (run mc evs s))"
proof (induction evs arbitrary: s)
  case Nil
  then show ?case by (simp add: run_def)
next
  case (Cons e evs)
  from step_fifo [of mc s e]
  have a: "prefix (released s @ queue s) (released (step mc s e) @ queue (step mc s e))"
    by (auto simp: prefix_def)
  have r: "run mc (e # evs) s = run mc evs (step mc s e)" by (simp add: run_def)
  from Cons.IH [of "step mc s e"] a step_released_prefix [of s mc e] show ?case
    unfolding r by (meson prefix_order.order_trans)
qed

lemma tabCeiling_nat:
  "globalMaxTabs mc = Some (of_nat N) \<Longrightarrow> 0 < N \<Longrightarrow> tabCeiling mc = of_nat N"
  by (simp add: tabCeiling_def)

lemma prompt_step_bound:
  assumes c: "tabCeiling mc = of_nat N" and n: "0 < N"
    and g: "granted s = []" and b: "openContexts s \<le> N"
  shows "granted (openGranted (step mc s e)) = [] \<and> openContexts (openGranted (step mc s e)) \<le> N"
proof (cases e)
  case (Acquire w)
  show ?thesis
  proof (cases "fst (wait mc (pages s) (queue s) w)")
    case True
    then have "(of_int (int (pages s) - 1) :: rat) < of_nat N"
      using c by (auto simp: wait_def split: if_splits)
    then have "(of_int (int (pages s) - 1) :: rat) < of_int (int N)" by simp
    then have "int (pages s) - 1 < int N" by (simp only: of_int_less_iff)
    then have "pages s \<le> N" by simp
    with True Acquire g show ?thesis
      by (auto simp: openGranted_def openContexts_def wait_def split: if_splits)
  next
    case False
    with Acquire g b show ?thesis
      by (auto simp: openGranted_def openContexts_def wait_def split: if_splits)
  qed
next
  case (Opened w)
  with g b show ?thesis by (simp add: openGranted_def openContexts_def)
next
  case Closed
  with g b show ?thesis by (auto simp: openGranted_def openContexts_def)
next
  case Tick
  with g b n show ?thesis
    by (auto simp: openGranted_def openContexts_def reclaim_def)
qed

lemma runPrompt_bound:
  assumes c: "tabCeiling mc = of_nat N" and n: "0 < N"
  shows "granted s = [] \<Longrightarrow> openContexts s \<le> N \<Longrightarrow>
         granted (runPrompt mc evs s) = [] \<and> openContexts (runPrompt mc evs s) \<le> N"
proof (induction evs arbitrary: s)
  case Nil
  then show ?case by (simp add: runPrompt_def)
next
  case (Cons e evs)
  have r: "runPrompt mc (e # evs) s = runPrompt mc evs (openGranted (step mc s e))"
    by (simp add: runPrompt_def)
  from prompt_step_bound [OF c n Cons.prems, of e]
  have "granted (openGranted (step mc s e)) = []" "openContexts (openGranted (step mc s e)) \<le> N"
    by simp_all
  from Cons.IH [OF this] show ?case by (simp only: r)
qed

text \<open>
  C9: with a ceiling of \<open>N\<close> and \<open>N + 5\<close> requests, at most \<open>N\<close> page contexts are ever
  open at once. \<open>wait\<close> reads the number of pages and reserves nothing, and the page of a
  request that passed is opened only later, by \<open>newPage\<close>. With a ceiling of 1, six requests
  that arrive before any page is open all pass the gate, none is queued, and six contexts are
  open at once. When two requests arrive first and four more after the two pages are open,
  the four are queued behind two open contexts.
\<close>

theorem C9_simultaneous_requests_exceed_ceiling:
  "tabCeiling (master (Some 1)) = 1
   \<and> run (master (Some 1))
        [Acquire (shop ''A'' None 1), Acquire (shop ''B'' None 1), Acquire (shop ''C'' None 1),
         Acquire (shop ''D'' None 1), Acquire (shop ''E'' None 1), Acquire (shop ''F'' None 1),
         Opened (shop ''A'' None 1), Opened (shop ''B'' None 1), Opened (shop ''C'' None 1),
         Opened (shop ''D'' None 1), Opened (shop ''E'' None 1), Opened (shop ''F'' None 1)] idlePool
       = \<lparr> pages = 7, queue = [], granted = [], released = [] \<rparr>
   \<and> openContexts \<lparr> pages = 7, queue = [], granted = [], released = [] \<rparr> = 6
   \<and> openContexts (run (master (Some 1))
        [Acquire (shop ''A'' None 1), Acquire (shop ''B'' None 1),
         Opened (shop ''A'' None 1), Opened (shop ''B'' None 1),
         Acquire (shop ''C'' None 1), Acquire (shop ''D'' None 1),
         Acquire (shop ''E'' None 1), Acquire (shop ''F'' None 1)] idlePool) = 2"
  by code_simp

text \<open>
  What does hold of the gate. For a ceiling of \<open>N \<ge> 1\<close>, as long as every request that
  passes the gate has its page open before the next request or tick is handled, at most \<open>N\<close>
  page contexts are open at once. In every interleaving, queued requests are released
  strictly in the order in which they were queued: the released entries followed by the
  waiting ones only ever grow at the end. A tick releases at most one entry, the head of the
  queue, and only when the number of pages is exactly one; no other event releases an entry.
\<close>

theorem gate_release_order_and_prompt_bound:
  assumes "globalMaxTabs mc = Some (of_nat N)" and "0 < N"
    and "granted s = []" and "openContexts s \<le> N"
  shows "openContexts (runPrompt mc evs s) \<le> N
       \<and> prefix (released s @ queue s) (released (run mc evs s) @ queue (run mc evs s))
       \<and> prefix (released s) (released (run mc evs s))
       \<and> (released (step mc t Tick), queue (step mc t Tick))
           = (if queue t \<noteq> [] \<and> pages t = 1
              then (released t @ [hd (queue t)], tl (queue t)) else (released t, queue t))
       \<and> released (step mc t (Acquire w)) = released t
       \<and> released (step mc t (Opened w)) = released t
       \<and> released (step mc t Closed) = released t"
proof -
  from assms(1,2) have c: "tabCeiling mc = of_nat N" by (rule tabCeiling_nat)
  from runPrompt_bound [OF c assms(2,3,4)]
  have a: "openContexts (runPrompt mc evs s) \<le> N" by simp
  have t: "(released (step mc t Tick), queue (step mc t Tick))
           = (if queue t \<noteq> [] \<and> pages t = 1
              then (released t @ [hd (queue t)], tl (queue t)) else (released t, queue t))"
    by (simp add: reclaim_def)
  have o: "released (step mc t (Acquire w)) = released t"
    "released (step mc t (Opened w)) = released t" "released (step mc t Closed) = released t"
    by (auto simp: wait_def)
  from a run_fifo [of s mc evs] t o show ?thesis by simp
qed

theorem gate_release_order_example:
  "globalMaxTabs (master (Some 1)) = Some (of_nat 1) \<and> (0::nat) < 1
   \<and> granted busyPool = [] \<and> openContexts busyPool \<le> 1
   \<and> openContexts (runPrompt (master (Some 1))
        [Acquire (shop ''D'' None 1), Closed, Tick, Opened (shop ''B'' None 1),
         Closed, Tick, Opened (shop ''C'' None 1)] busyPool) \<le> 1
   \<and> prefix [shop ''B'' None 1, shop ''C'' None 1]
        (released (run (master (Some 1))
           [Acquire (shop ''D'' None 1), Closed, Tick, Opened (shop ''B'' None 1),
            Closed, Tick, Opened (shop ''C'' None 1)] busyPool)
         @ queue (run (master (Some 1))
           [Acquire (shop ''D'' None 1), Closed, Tick, Opened (shop ''B'' None 1),
            Closed, Tick, Opened (shop ''C'' None 1)] busyPool))
   \<and> released (run (master (Some 1))
           [Acquire (shop ''D'' None 1), Closed, Tick, Opened (shop ''B'' None 1),
            Closed, Tick, Opened (shop ''C'' None 1)] busyPool)
       = [shop ''B'' None 1, shop ''C'' None 1]"
proof -
  have h1: "globalMaxTabs (master (Some 1)) = Some (of_nat 1)" by (simp add: master_def)
  have h2: "(0::nat) < 1" by simp
  have h3: "granted busyPool = []" by (simp add: busyPool_def)
  have h4: "openContexts busyPool \<le> 1" by (simp add: busyPool_def openContexts_def)
  have q: "released busyPool @ queue busyPool = [shop ''B'' None 1, shop ''C'' None 1]"
    by (simp add: busyPool_def)
  have r: "released (run (master (Some 1))
           [Acquire (shop ''D'' None 1), Closed, Tick, Opened (shop ''B'' None 1),
            Closed, Tick, Opened (shop ''C'' None 1)] busyPool)
       = [shop ''B'' None 1, shop ''C'' None 1]"
    by code_simp
  from gate_release_order_and_prompt_bound [OF h1 h2 h3 h4] h1 h3 h4 q r show ?thesis by simp
qed

end
